theory Spec2Isabelle
  imports Complex_Main "HOL-Library.Multiset"
begin

section \<open>JavaScript values used by the handlers\<close>

text \<open>
  A JavaScript Number: \<open>NaN\<close>, an infinity, or a finite binary64 value. The flag is the
  sign bit (\<open>True\<close> for negative), so that \<open>-0\<close> is \<open>Finite True 0\<close>; the rational is
  the magnitude.
\<close>

datatype jsnum = NaN | Infinity bool | Finite bool rat

definition isNaN :: "jsnum \<Rightarrow> bool" where
  "isNaN x = (x = NaN)"

text \<open>
  Strings are lists of 8-bit characters: the code units below 256 of a JavaScript string.
  A form field that the request does not carry is \<open>undefined\<close> in \<open>req.body\<close>; it is
  \<open>None\<close> here.
\<close>

type_synonym field = "string option"

definition ToString :: "field \<Rightarrow> string" where
  "ToString v = (case v of None \<Rightarrow> ''undefined'' | Some s \<Rightarrow> s)"

subsection \<open>Rounding a decimal value to binary64\<close>

definition round_ties_even :: "rat \<Rightarrow> int" where
  "round_ties_even q =
     (let f = \<lfloor>q\<rfloor>; r = q - of_int f
      in if r < 1 / 2 then f
         else if 1 / 2 < r then f + 1
         else if even f then f else f + 1)"

text \<open>The number of binary digits of a positive integer.\<close>

function bit_length :: "int \<Rightarrow> int" where
  "bit_length a = (if a \<le> 0 then 0 else 1 + bit_length (a div 2))"
  by pat_completeness auto
termination
  by (relation "measure nat") auto

declare bit_length.simps [simp del]

text \<open>
  The binary exponent of a positive rational: the \<open>e\<close> with \<open>2^e \<le> q < 2^(e+1)\<close>. With
  \<open>q = a / b\<close> it is the difference of the bit lengths of \<open>a\<close> and \<open>b\<close>, or one less.
\<close>

definition floor_log2 :: "rat \<Rightarrow> int" where
  "floor_log2 q =
     (let (a, b) = quotient_of q; k = bit_length a - bit_length b
      in if 2 powi k \<le> q then k else k - 1)"

text \<open>
  The Number value for a non-negative mathematical value: round to nearest, ties to even,
  on a 53-bit significand \<open>m\<close> with the exponent bounded below by \<open>-1022\<close> (subnormals).
  The result is \<open>None\<close>, an infinity, when the rounded value is \<open>2^1024\<close> or more: the
  exponent is 1024 or more, or it is 1023 and the significand rounds up to \<open>2^53\<close>.
\<close>

definition number_value :: "rat \<Rightarrow> rat option" where
  "number_value q =
     (if q = 0 then Some 0
      else
        let e = floor_log2 q
        in if 1024 \<le> e then None
           else
             let u = 2 powi (max e (- 1022) - 52);
                 m = round_ties_even (q / u)
             in if e = 1023 \<and> m = 2 ^ 53 then None else Some (of_int m * u))"

subsection \<open>parseFloat\<close>

definition is_white :: "char \<Rightarrow> bool" where
  "is_white c = ((of_char c :: nat) \<in> {9, 10, 11, 12, 13, 32, 160})"

definition is_digit :: "char \<Rightarrow> bool" where
  "is_digit c = (c \<in> set ''0123456789'')"

definition digit_val :: "char \<Rightarrow> int" where
  "digit_val c = of_char c - 48"

definition digits_val :: "string \<Rightarrow> int" where
  "digits_val ds = foldl (\<lambda>n c. 10 * n + digit_val c) 0 ds"

definition starts_with :: "string \<Rightarrow> string \<Rightarrow> bool" where
  "starts_with p s = (take (length p) s = p)"

text \<open>An optional sign: the flag is \<open>True\<close> for \<open>-\<close>.\<close>

definition split_sign :: "string \<Rightarrow> bool \<times> string" where
  "split_sign s =
     (case s of
        [] \<Rightarrow> (False, [])
      | c # cs \<Rightarrow>
          if c = CHR ''-'' then (True, cs)
          else if c = CHR ''+'' then (False, cs)
          else (False, s))"

text \<open>
  The value of the longest \<open>ExponentPart\<close> at the head of the string, and 0 when there is
  none (an \<open>e\<close> that no digit follows is not part of the literal).
\<close>

definition exponent_part :: "string \<Rightarrow> int" where
  "exponent_part s =
     (case s of
        [] \<Rightarrow> 0
      | c # cs \<Rightarrow>
          if c = CHR ''e'' \<or> c = CHR ''E'' then
            (let (neg, r) = split_sign cs; ds = takeWhile is_digit r
             in if ds = [] then 0
                else if neg then - digits_val ds else digits_val ds)
          else 0)"

text \<open>The digits after a decimal point at the head of the string, and the rest.\<close>

definition fraction_part :: "string \<Rightarrow> string \<times> string" where
  "fraction_part s =
     (case s of
        [] \<Rightarrow> ([], [])
      | c # cs \<Rightarrow>
          if c = CHR ''.'' then (takeWhile is_digit cs, dropWhile is_digit cs)
          else ([], s))"

text \<open>
  The builtin \<open>parseFloat\<close> on a string: leading white space is dropped, the longest prefix
  that is a \<open>StrDecimalLiteral\<close> is read (whatever follows it is ignored), and \<open>NaN\<close> is
  returned when no prefix is one.
\<close>

definition parseFloat_string :: "string \<Rightarrow> jsnum" where
  "parseFloat_string inputString =
     (let (neg, r) = split_sign (dropWhile is_white inputString)
      in if starts_with ''Infinity'' r then Infinity neg
         else
           let ip = takeWhile is_digit r;
               (fp, r2) = fraction_part (dropWhile is_digit r)
           in if ip = [] \<and> fp = [] then NaN
              else
                let mv = of_int (digits_val (ip @ fp))
                           * 10 powi (exponent_part r2 - int (length fp))
                in (case number_value mv of
                      None \<Rightarrow> Infinity neg
                    | Some v \<Rightarrow> Finite neg v))"

text \<open>\<open>parseFloat(price)\<close> on a body field: the argument is converted to a string first.\<close>

definition parseFloat :: "field \<Rightarrow> jsnum" where
  "parseFloat v = parseFloat_string (ToString v)"

text \<open>\<open>ToString\<close> of a non-negative integer Number such as \<open>Date.now()\<close>: its decimal digits.\<close>

function dec_string :: "nat \<Rightarrow> string" where
  "dec_string n =
     (if n < 10 then [''0123456789'' ! n]
      else dec_string (n div 10) @ [''0123456789'' ! (n mod 10)])"
  by pat_completeness auto
termination
  by (relation "measure id") auto

declare dec_string.simps [simp del]

section \<open>The data model\<close>

type_synonym objectId = nat

text \<open>
  A document of the \<open>Product\<close> collection. \<open>product_id\<close> is \<open>_id\<close>, \<open>image_ref\<close> is the
  schema's \<open>image\<close>. A \<open>String\<close> path that holds no value is \<open>None\<close>. The schema of the
  local-disk server has no \<open>category\<close> path: its documents keep \<open>None\<close> there.
\<close>

record product =
  product_id :: objectId
  name :: field
  description :: field
  price :: jsnum
  category :: field
  image_ref :: string
  date :: nat

record user =
  user_id :: objectId
  username :: field
  email :: string
  password :: string

type_synonym bytes = "char list"

text \<open>
  The state outside the process: the two collections in insertion order, the Blob Store
  (the \<open>uploads/\<close> directory of the local-disk server, the provider's assets of the cloud
  server) as the references written with their contents, and the supply of fresh
  \<open>ObjectId\<close>s.
\<close>

record world =
  products :: "product list"
  users :: "user list"
  blobs :: "(string \<times> bytes) list"
  next_id :: objectId

text \<open>
  What one request meets in its collaborators:
  \<^item> \<open>now\<close>: \<open>Date.now()\<close> when the document is constructed (milliseconds);
  \<^item> \<open>upload_now\<close>: \<open>Date.now()\<close> when multer names the file on disk;
  \<^item> \<open>extname\<close>: Node's \<open>path.extname\<close>;
  \<^item> \<open>disk_ok\<close>: multer's write to \<open>uploads/\<close> succeeds;
  \<^item> \<open>cloud_result\<close>: the \<open>secure_url\<close> that the provider's callback reports, \<open>None\<close> when
    it reports an error;
  \<^item> \<open>db_ok\<close>: the database answers the query of the request; when \<open>False\<close> the Mongoose
    call rejects (connection lost, ...);
  \<^item> \<open>cast_id\<close>: Mongoose's cast of a string to an \<open>ObjectId\<close>, \<open>None\<close> when it throws a
    \<open>CastError\<close> (which strings cast depends on the version of the library);
  \<^item> \<open>omit_undefined\<close>: whether \<open>findByIdAndUpdate\<close> drops the keys of the update whose
    value is \<open>undefined\<close> (Mongoose 6 and later) or stores no value for them (Mongoose 5);
  \<^item> \<open>bcrypt_compare\<close>: \<open>bcrypt.compare\<close> of a password with a stored hash;
  \<^item> \<open>jwt_secret\<close>: \<open>process.env.JWT_SECRET\<close>.
\<close>

record env =
  now :: nat
  upload_now :: nat
  extname :: "string \<Rightarrow> string"
  disk_ok :: bool
  cloud_result :: "string option"
  db_ok :: bool
  cast_id :: "string \<Rightarrow> objectId option"
  omit_undefined :: bool
  bcrypt_compare :: "string \<Rightarrow> string \<Rightarrow> bool"
  jwt_secret :: "string option"

text \<open>The file part \<open>image\<close> of a multipart request.\<close>

record upfile =
  originalname :: string
  buffer :: bytes

text \<open>
  A multipart request to a product route: the text parts (\<open>req.body\<close>, each name at most
  once), the file part \<open>image\<close> when there is one, and \<open>req.params.id\<close> (unused by POST),
  the last segment of the path as the client wrote it: any string.
\<close>

record request =
  req_body :: "string \<rightharpoonup> string"
  req_file :: "upfile option"
  params_id :: string

record jwt_payload =
  userId :: objectId
  iat :: nat
  exp :: nat

text \<open>A signed token: its payload and the key that signed it.\<close>

datatype token = Token jwt_payload string

datatype json =
    ProductJson product
  | ProductsJson "product list"
  | ErrorJson string
  | MessageJson string
  | LoginJson token objectId field
  | ErrorPage

text \<open>
  \<open>Reply status body\<close> is \<open>res.status(status).json(body)\<close>; \<open>ErrorPage\<close> is the page of
  Express's default error handler. \<open>Unhandled\<close> is a rejection that no \<open>catch\<close> receives: the
  handler sends nothing.
\<close>

datatype response = Reply nat json | Unhandled

datatype variant = LocalDisk | Cloud

section \<open>Collaborators\<close>

text \<open>\<open>new Product({...})\<close>: Mongoose assigns \<open>_id\<close> and the default \<open>date\<close>.\<close>

definition new_Product ::
  "env \<Rightarrow> field \<Rightarrow> field \<Rightarrow> jsnum \<Rightarrow> field \<Rightarrow> string \<Rightarrow> world \<Rightarrow> product \<times> world" where
  "new_Product e n d p c i w =
     (\<lparr>product_id = next_id w, name = n, description = d, price = p, category = c,
       image_ref = i, date = now e\<rparr>,
      w\<lparr>next_id := Suc (next_id w)\<rparr>)"

text \<open>\<open>newProduct.save()\<close>: \<open>None\<close> when it rejects.\<close>

definition save :: "env \<Rightarrow> product \<Rightarrow> world \<Rightarrow> world option" where
  "save e p w = (if db_ok e then Some (w\<lparr>products := products w @ [p]\<rparr>) else None)"

text \<open>
  \<open>uploadToCloudinary(buffer)\<close>: resolves with the provider's result (here its
  \<open>secure_url\<close>) after the asset is stored, rejects (\<open>None\<close>) on the provider's error.
\<close>

definition uploadToCloudinary :: "env \<Rightarrow> bytes \<Rightarrow> world \<Rightarrow> (string \<times> world) option" where
  "uploadToCloudinary e buf w =
     (case cloud_result e of
        None \<Rightarrow> None
      | Some url \<Rightarrow> Some (url, w\<lparr>blobs := blobs w @ [(url, buf)]\<rparr>))"

text \<open>
  The middleware \<open>upload.single("image")\<close> over \<open>multer.diskStorage\<close>: it runs before the
  handler, writes the file part to \<open>uploads/\<close> under \<open>Date.now() + path.extname(originalname)\<close>
  and sets \<open>req.file.filename\<close>. \<open>None\<close> when the write fails: multer passes the error on and
  the handler does not run.
\<close>

definition multer_disk :: "env \<Rightarrow> request \<Rightarrow> world \<Rightarrow> (string option \<times> world) option" where
  "multer_disk e req w =
     (case req_file req of
        None \<Rightarrow> Some (None, w)
      | Some f \<Rightarrow>
          if disk_ok e then
            (let filename = dec_string (upload_now e) @ extname e (originalname f)
             in Some (Some filename, w\<lparr>blobs := blobs w @ [(''uploads/'' @ filename, buffer f)]\<rparr>))
          else None)"

text \<open>The first document with the given \<open>_id\<close>, replaced by its update.\<close>

fun update_first ::
  "objectId \<Rightarrow> (product \<Rightarrow> product) \<Rightarrow> product list \<Rightarrow> product option \<times> product list" where
  "update_first i f [] = (None, [])"
| "update_first i f (p # ps) =
     (if product_id p = i then (Some (f p), f p # ps)
      else (let (r, ps') = update_first i f ps in (r, p # ps')))"

text \<open>The first document with the given \<open>_id\<close>, removed.\<close>

fun delete_first :: "objectId \<Rightarrow> product list \<Rightarrow> product option \<times> product list" where
  "delete_first i [] = (None, [])"
| "delete_first i (p # ps) =
     (if product_id p = i then (Some p, ps)
      else (let (r, ps') = delete_first i ps in (r, p # ps')))"

text \<open>
  The object \<open>updateData\<close> of the PUT handler. Its keys \<open>name\<close>, \<open>description\<close>, \<open>price\<close> and
  \<open>category\<close> are always there (with the value \<open>undefined\<close> for a text part that the
  request lacks); the key \<open>image\<close> is there only after an upload.
\<close>

record updateData =
  upd_name :: field
  upd_description :: field
  upd_price :: jsnum
  upd_category :: field
  upd_image :: "string option"

definition set_path :: "bool \<Rightarrow> field \<Rightarrow> field \<Rightarrow> field" where
  "set_path omit new old = (case new of Some v \<Rightarrow> Some v | None \<Rightarrow> if omit then old else None)"

definition apply_update :: "bool \<Rightarrow> updateData \<Rightarrow> product \<Rightarrow> product" where
  "apply_update omit u p =
     p\<lparr>name := set_path omit (upd_name u) (name p),
       description := set_path omit (upd_description u) (description p),
       price := upd_price u,
       category := set_path omit (upd_category u) (category p),
       image_ref := (case upd_image u of None \<Rightarrow> image_ref p | Some i \<Rightarrow> i)\<rparr>"

text \<open>
  \<open>Product.findByIdAndUpdate(id, updateData, { new: true })\<close> on the string of the path.
  Mongoose casts the string to an \<open>ObjectId\<close> to build the query \<open>{_id: id}\<close>; the call
  rejects (\<open>None\<close>) when the string does not cast or the database fails. Otherwise it
  resolves with the updated document (\<open>null\<close>, here \<open>None\<close>, when no document has the id)
  and the new state.
\<close>

definition findByIdAndUpdate ::
  "env \<Rightarrow> string \<Rightarrow> updateData \<Rightarrow> world \<Rightarrow> (product option \<times> world) option" where
  "findByIdAndUpdate e idp u w =
     (case cast_id e idp of
        None \<Rightarrow> None
      | Some i \<Rightarrow>
          if db_ok e then
            (let (r, ps') = update_first i (apply_update (omit_undefined e) u) (products w)
             in Some (r, w\<lparr>products := ps'\<rparr>))
          else None)"

text \<open>\<open>Product.findByIdAndDelete(id)\<close>, likewise.\<close>

definition findByIdAndDelete ::
  "env \<Rightarrow> string \<Rightarrow> world \<Rightarrow> (product option \<times> world) option" where
  "findByIdAndDelete e idp w =
     (case cast_id e idp of
        None \<Rightarrow> None
      | Some i \<Rightarrow>
          if db_ok e then
            (let (r, ps') = delete_first i (products w) in Some (r, w\<lparr>products := ps'\<rparr>))
          else None)"

text \<open>
  \<open>Product.find().sort({ date: -1 })\<close>: every document, by descending \<open>date\<close>. Documents of
  equal \<open>date\<close> are kept in insertion order here (MongoDB leaves their order open).
\<close>

definition find_sorted :: "env \<Rightarrow> world \<Rightarrow> product list option" where
  "find_sorted e w =
     (if db_ok e then Some (sort_key (\<lambda>p. - int (date p)) (products w)) else None)"

text \<open>\<open>User.findOne({ email })\<close>.\<close>

definition findOne :: "env \<Rightarrow> string \<Rightarrow> world \<Rightarrow> user option option" where
  "findOne e em w = (if db_ok e then Some (find (\<lambda>u. email u = em) (users w)) else None)"

text \<open>
  \<open>jwt.sign({ userId }, secret, { expiresIn: "2h" })\<close>: the payload gets \<open>iat\<close>, the time of
  signing in seconds, and \<open>exp\<close>, two hours (7200 seconds) later. Signing throws (\<open>None\<close>)
  when the secret is \<open>undefined\<close> or empty.
\<close>

definition jwt_sign :: "env \<Rightarrow> objectId \<Rightarrow> string option \<Rightarrow> token option" where
  "jwt_sign e uid secret =
     (case secret of
        None \<Rightarrow> None
      | Some k \<Rightarrow>
          if k = [] then None
          else Some (Token \<lparr>userId = uid, iat = now e div 1000,
                            exp = now e div 1000 + 2 * 60 * 60\<rparr> k))"

fun jwt_decode :: "token \<Rightarrow> jwt_payload" where
  "jwt_decode (Token p k) = p"

section \<open>The handlers\<close>

subsection \<open>The cloud server\<close>

text \<open>
  \<open>POST /api/products\<close>. multer keeps the file part in memory (\<open>memoryStorage\<close>), so nothing
  is stored before the handler runs. Every exception in the handler reaches its \<open>catch\<close>.
\<close>

definition post_products_cloud :: "env \<Rightarrow> request \<Rightarrow> world \<Rightarrow> response \<times> world" where
  "post_products_cloud e req w =
     (let priceNumber = parseFloat (req_body req ''price'')
      in if isNaN priceNumber then
           (Reply 400 (ErrorJson ''Price must be a valid number''), w)
         else
           (case (case req_file req of
                    None \<Rightarrow> Some ([], w)
                  | Some f \<Rightarrow> uploadToCloudinary e (buffer f) w) of
              None \<Rightarrow> (Reply 500 (ErrorJson ''Internal server error''), w)
            | Some (imageUrl, w1) \<Rightarrow>
                (let (newProduct, w2) =
                       new_Product e (req_body req ''name'') (req_body req ''description'')
                         priceNumber (req_body req ''category'') imageUrl w1
                 in case save e newProduct w2 of
                      None \<Rightarrow> (Reply 500 (ErrorJson ''Internal server error''), w2)
                    | Some w3 \<Rightarrow> (Reply 201 (ProductJson newProduct), w3))))"

text \<open>\<open>PUT /api/products/:id\<close>.\<close>

definition put_products :: "env \<Rightarrow> request \<Rightarrow> world \<Rightarrow> response \<times> world" where
  "put_products e req w =
     (let priceNumber = parseFloat (req_body req ''price'')
      in if isNaN priceNumber then
           (Reply 400 (ErrorJson ''Price must be a valid number''), w)
         else
           (let updateData =
                  \<lparr>upd_name = req_body req ''name'',
                   upd_description = req_body req ''description'',
                   upd_price = priceNumber,
                   upd_category = req_body req ''category'',
                   upd_image = None\<rparr>
            in case (case req_file req of
                       None \<Rightarrow> Some (updateData, w)
                     | Some f \<Rightarrow>
                         (case uploadToCloudinary e (buffer f) w of
                            None \<Rightarrow> None
                          | Some (url, w1) \<Rightarrow> Some (updateData\<lparr>upd_image := Some url\<rparr>, w1))) of
                 None \<Rightarrow> (Reply 500 (ErrorJson ''Internal server error''), w)
               | Some (updateData', w1) \<Rightarrow>
                   (case findByIdAndUpdate e (params_id req) updateData' w1 of
                      None \<Rightarrow> (Reply 500 (ErrorJson ''Internal server error''), w1)
                    | Some (None, w2) \<Rightarrow> (Reply 404 (ErrorJson ''Product not found''), w2)
                    | Some (Some updated, w2) \<Rightarrow> (Reply 200 (ProductJson updated), w2))))"

subsection \<open>The local-disk server\<close>

text \<open>
  \<open>POST /api/products\<close>. The middleware has stored the file part before the handler runs.
  The handler reads no \<open>category\<close>.
\<close>

definition post_products_local :: "env \<Rightarrow> request \<Rightarrow> world \<Rightarrow> response \<times> world" where
  "post_products_local e req w =
     (case multer_disk e req w of
        None \<Rightarrow> (Reply 500 ErrorPage, w)
      | Some (filename, w1) \<Rightarrow>
          (let priceNumber = parseFloat (req_body req ''price'')
           in if isNaN priceNumber then
                (Reply 400 (ErrorJson ''Price must be a valid number''), w1)
              else
                (let image = (case filename of None \<Rightarrow> [] | Some fn \<Rightarrow> ''/uploads/'' @ fn);
                     (newProduct, w2) =
                       new_Product e (req_body req ''name'') (req_body req ''description'')
                         priceNumber None image w1
                 in case save e newProduct w2 of
                      None \<Rightarrow> (Reply 500 (ErrorJson ''Error adding product''), w2)
                    | Some w3 \<Rightarrow> (Reply 201 (ProductJson newProduct), w3))))"

subsection \<open>Routes of both servers\<close>

text \<open>
  \<open>DELETE /api/products/:id\<close>: the same handler in both servers, up to the message of the
  \<open>catch\<close> branch.
\<close>

definition delete_products :: "variant \<Rightarrow> env \<Rightarrow> request \<Rightarrow> world \<Rightarrow> response \<times> world" where
  "delete_products v e req w =
     (case findByIdAndDelete e (params_id req) w of
        None \<Rightarrow>
          (Reply 500 (ErrorJson (case v of LocalDisk \<Rightarrow> ''Server error''
                                         | Cloud \<Rightarrow> ''Internal server error'')), w)
      | Some (None, w1) \<Rightarrow> (Reply 404 (ErrorJson ''Product not found''), w1)
      | Some (Some deleted, w1) \<Rightarrow> (Reply 200 (MessageJson ''Product deleted''), w1))"

text \<open>
  \<open>GET /api/products\<close>. Only the cloud server wraps the query in \<open>try\<close>/\<open>catch\<close>; in the
  local-disk server a rejected query is an unhandled rejection.
\<close>

definition get_products :: "variant \<Rightarrow> env \<Rightarrow> world \<Rightarrow> response" where
  "get_products v e w =
     (case find_sorted e w of
        None \<Rightarrow>
          (case v of LocalDisk \<Rightarrow> Unhandled
                   | Cloud \<Rightarrow> Reply 500 (ErrorJson ''Internal server error''))
      | Some ps \<Rightarrow> Reply 200 (ProductsJson ps))"

text \<open>
  The signing key: \<open>process.env.JWT_SECRET || "mysecret"\<close> in the local-disk server,
  \<open>process.env.JWT_SECRET\<close> as it is in the cloud server.
\<close>

definition signing_secret :: "variant \<Rightarrow> env \<Rightarrow> string option" where
  "signing_secret v e =
     (case v of
        LocalDisk \<Rightarrow>
          (case jwt_secret e of
             None \<Rightarrow> Some ''mysecret''
           | Some k \<Rightarrow> if k = [] then Some ''mysecret'' else Some k)
      | Cloud \<Rightarrow> jwt_secret e)"

text \<open>
  \<open>POST /api/login\<close> with the body \<open>{email, password}\<close>, both strings. The cloud server
  answers an exception with 500; the local-disk server has no \<open>try\<close>/\<open>catch\<close>.
\<close>

definition post_login :: "variant \<Rightarrow> env \<Rightarrow> string \<Rightarrow> string \<Rightarrow> world \<Rightarrow> response" where
  "post_login v e em pw w =
     (let failed = (case v of LocalDisk \<Rightarrow> Unhandled
                            | Cloud \<Rightarrow> Reply 500 (ErrorJson ''Internal server error''))
      in case findOne e em w of
           None \<Rightarrow> failed
         | Some None \<Rightarrow> Reply 400 (ErrorJson ''Invalid credentials'')
         | Some (Some u) \<Rightarrow>
             if \<not> bcrypt_compare e pw (password u) then Reply 400 (ErrorJson ''Wrong password'')
             else
               (case jwt_sign e (user_id u) (signing_secret v e) of
                  None \<Rightarrow> failed
                | Some tok \<Rightarrow> Reply 200 (LoginJson tok (user_id u) (username u))))"

section \<open>Predicates on prices and sample inputs\<close>

text \<open>The JavaScript tests \<open>isFinite(x)\<close> and \<open>x >= 0\<close> on a Number.\<close>

definition isFinite :: "jsnum \<Rightarrow> bool" where
  "isFinite x = (case x of Finite neg q \<Rightarrow> True | _ \<Rightarrow> False)"

definition ge_zero :: "jsnum \<Rightarrow> bool" where
  "ge_zero x =
     (case x of NaN \<Rightarrow> False | Infinity neg \<Rightarrow> \<not> neg | Finite neg q \<Rightarrow> \<not> neg \<or> q = 0)"

text \<open>
  Whether a string begins with a \<open>StrDecimalLiteral\<close> without its sign: with \<open>Infinity\<close>,
  with a digit, or with a point and a digit.
\<close>

definition begins_decimal_literal :: "string \<Rightarrow> bool" where
  "begins_decimal_literal r =
     (starts_with ''Infinity'' r
      \<or> (case r of
            [] \<Rightarrow> False
          | c # cs \<Rightarrow>
              is_digit c
              \<or> (c = CHR ''.'' \<and> (case cs of [] \<Rightarrow> False | d # ds \<Rightarrow> is_digit d))))"

text \<open>
  The cast of a string to an \<open>ObjectId\<close> as current versions of the library do it: a
  string of 24 hexadecimal digits casts to the identifier that the digits write, and no
  other string casts. (Older versions also cast every string of 12 characters; no version
  casts a string of another length.)
\<close>

definition is_hex :: "char \<Rightarrow> bool" where
  "is_hex c = (c \<in> set ''0123456789abcdefABCDEF'')"

definition hex_val :: "char \<Rightarrow> nat" where
  "hex_val c =
     (if is_digit c then of_char c - 48
      else if c \<in> set ''abcdef'' then of_char c - 87
      else of_char c - 55)"

definition hex_object_id :: "string \<Rightarrow> objectId option" where
  "hex_object_id s =
     (if length s = 24 \<and> list_all is_hex s
      then Some (foldl (\<lambda>n c. 16 * n + hex_val c) 0 s)
      else None)"

text \<open>
  A run in which every collaborator works. The stand-ins for \<open>path.extname\<close> and
  \<open>bcrypt.compare\<close> are toys that agree with the real functions on the inputs used below.
\<close>

definition example_env :: env where
  "example_env =
     \<lparr>now = 1700000000123, upload_now = 1700000000100,
      extname = (\<lambda>s. dropWhile (\<lambda>c. c \<noteq> CHR ''.'') s),
      disk_ok = True, cloud_result = Some ''https://res.example/products/a1.png'',
      db_ok = True, cast_id = hex_object_id, omit_undefined = True,
      bcrypt_compare = (\<lambda>pw h. h = ''hash:'' @ pw),
      jwt_secret = Some ''k''\<rparr>"

text \<open>A run in which the Blob Store fails, in either server.\<close>

definition failing_store_env :: env where
  "failing_store_env = example_env\<lparr>disk_ok := False, cloud_result := None\<rparr>"

definition pen :: product where
  "pen = \<lparr>product_id = 7, name = Some ''Pen'', description = Some ''Blue ink'',
          price = Finite False (3 / 2), category = Some ''stationery'',
          image_ref = ''https://res.example/products/pen.png'', date = 1600000000000\<rparr>"

definition ink :: product where
  "ink = \<lparr>product_id = 5, name = Some ''Ink'', description = None,
          price = Finite False 4, category = None,
          image_ref = [], date = 1650000000000\<rparr>"

definition admin :: user where
  "admin = \<lparr>user_id = 1, username = Some ''Admin'', email = ''admin@gmail.com'',
            password = ''hash:admin123''\<rparr>"

definition example_world :: world where
  "example_world = \<lparr>products = [pen], users = [admin], blobs = [], next_id = 8\<rparr>"

definition two_products_world :: world where
  "two_products_world = \<lparr>products = [pen, ink], users = [admin], blobs = [], next_id = 8\<rparr>"

definition png :: upfile where
  "png = \<lparr>originalname = ''a.png'', buffer = ''0123456789''\<rparr>"

text \<open>A multipart request with the given text parts, file part and path parameter.\<close>

definition form :: "(string \<times> string) list \<Rightarrow> upfile option \<Rightarrow> string \<Rightarrow> request" where
  "form kvs f idp = \<lparr>req_body = map_of kvs, req_file = f, params_id = idp\<rparr>"

text \<open>
  Path parameters: the identifier 7 of \<open>pen\<close>, the identifier 99 that no sample product
  has, and a string that is no \<open>ObjectId\<close>.
\<close>

definition id_of_pen :: string where
  "id_of_pen = ''000000000000000000000007''"

definition id_of_none :: string where
  "id_of_none = ''000000000000000000000063''"

definition id_malformed :: string where
  "id_malformed = ''zzz''"

section \<open>Facts about the collaborators\<close>

lemma parseFloat_undefined: "parseFloat None = NaN"
  by code_simp

lemma parseFloat_abc: "parseFloat (Some ''abc'') = NaN"
  by code_simp

lemma parseFloat_1_50: "parseFloat (Some ''1.50'') = Finite False (3 / 2)"
  by code_simp

lemma parseFloat_2: "parseFloat (Some ''2'') = Finite False 2"
  by code_simp

lemma parseFloat_minus_5: "parseFloat (Some ''-5'') = Finite True 5"
  by code_simp

lemma parseFloat_Infinity: "parseFloat (Some ''Infinity'') = Infinity False"
  by code_simp

lemma takeWhile_Nil_iff: "(takeWhile P xs = []) = (case xs of [] \<Rightarrow> True | x # _ \<Rightarrow> \<not> P x)"
  by (cases xs) simp_all

lemma not_digit_point: "\<not> is_digit CHR ''.''"
  by (simp add: is_digit_def)

text \<open>
  \<open>parseFloat\<close> returns \<open>NaN\<close> exactly when what follows the leading white space and the
  optional sign does not begin a decimal literal; whatever a literal evaluates to, it is
  a number or an infinity.
\<close>

lemma parseFloat_string_NaN_iff:
  "isNaN (parseFloat_string s)
     = (\<not> begins_decimal_literal (snd (split_sign (dropWhile is_white s))))"
proof -
  obtain neg r where sr: "split_sign (dropWhile is_white s) = (neg, r)"
    by (cases "split_sign (dropWhile is_white s)")
  show ?thesis
  proof (cases r)
    case Nil
    then show ?thesis
      by (simp add: parseFloat_string_def sr begins_decimal_literal_def starts_with_def
            fraction_part_def isNaN_def)
  next
    case (Cons c cs)
    show ?thesis
    proof (cases "starts_with ''Infinity'' r")
      case True
      then show ?thesis
        by (simp add: parseFloat_string_def sr begins_decimal_literal_def isNaN_def)
    next
      case False
      show ?thesis
      proof (cases "is_digit c")
        case True
        then show ?thesis
          using False Cons
          by (simp add: parseFloat_string_def sr begins_decimal_literal_def isNaN_def Let_def
              split: prod.split option.split)
      next
        case nd: False
        then show ?thesis
          using False Cons not_digit_point
          by (cases cs)
             (auto simp: parseFloat_string_def sr begins_decimal_literal_def isNaN_def Let_def
                fraction_part_def takeWhile_Nil_iff
              split: prod.split option.split list.split)
      qed
    qed
  qed
qed

lemma parseFloat_NaN_iff:
  "isNaN (parseFloat v)
     = (\<not> begins_decimal_literal (snd (split_sign (dropWhile is_white (ToString v)))))"
  by (simp only: parseFloat_def parseFloat_string_NaN_iff)

lemma cast_id_of_pen: "hex_object_id id_of_pen = Some 7"
  by code_simp

lemma cast_id_of_none: "hex_object_id id_of_none = Some 99"
  by code_simp

lemma cast_id_malformed: "hex_object_id id_malformed = None"
  by code_simp

lemma dec_string_upload_now: "dec_string 1700000000100 = ''1700000000100''"
  by (simp add: dec_string.simps)

lemma ge_zero_not_NaN: "ge_zero x \<Longrightarrow> \<not> isNaN x"
  by (cases x) (simp_all add: ge_zero_def isNaN_def)

lemma find_id:
  "find (\<lambda>q. product_id q = i) ps = Some p \<Longrightarrow> product_id p = i \<and> p \<in> set ps"
  by (induction ps) (auto split: if_splits)

lemma update_first_none: "i \<notin> product_id ` set ps \<Longrightarrow> update_first i f ps = (None, ps)"
  by (induction ps) auto

lemma update_first_some:
  "find (\<lambda>q. product_id q = i) ps = Some p \<Longrightarrow> fst (update_first i f ps) = Some (f p)"
  by (induction ps) (auto split: prod.splits)

lemma update_first_map:
  "(\<And>q. g (f q) = g q) \<Longrightarrow> map g (snd (update_first i f ps)) = map g ps"
  by (induction ps) (auto split: prod.splits)

lemma update_first_find:
  "find (\<lambda>q. product_id q = i) ps = Some p \<Longrightarrow> product_id (f p) = i \<Longrightarrow>
     find (\<lambda>q. product_id q = i) (snd (update_first i f ps)) = Some (f p)"
  by (induction ps) (auto split: prod.splits)

lemma delete_first_none: "i \<notin> product_id ` set ps \<Longrightarrow> delete_first i ps = (None, ps)"
  by (induction ps) auto

lemma delete_first_some:
  "find (\<lambda>q. product_id q = i) ps = Some p \<Longrightarrow> delete_first i ps = (Some p, remove1 p ps)"
  by (induction ps) (auto split: prod.splits dest: find_id)

lemma remove1_distinct_id:
  "distinct (map product_id ps) \<Longrightarrow> p \<in> set ps \<Longrightarrow>
     product_id p \<notin> product_id ` set (remove1 p ps)"
  by (auto simp: distinct_map dest: inj_onD)

lemma apply_update_no_image:
  "upd_image u = None \<Longrightarrow> image_ref (apply_update omit u q) = image_ref q"
  by (simp add: apply_update_def)

lemma apply_update_id: "product_id (apply_update omit u q) = product_id q"
  by (simp add: apply_update_def)

text \<open>
  In the cloud server a price that parses to \<open>NaN\<close> ends the request before any
  collaborator is called: nothing is uploaded, inserted or updated.
\<close>

lemma cloud_invalid_price_no_write:
  "isNaN (parseFloat (req_body req ''price'')) \<Longrightarrow>
     snd (post_products_cloud e req w) = w \<and> snd (put_products e req w) = w"
  by (simp add: post_products_cloud_def put_products_def)

text \<open>
  In the local-disk server the same request inserts no document either, but the store is
  the one the middleware left.
\<close>

lemma local_invalid_price_no_insert:
  "isNaN (parseFloat (req_body req ''price'')) \<Longrightarrow>
     products (snd (post_products_local e req w)) = products w"
  by (simp add: post_products_local_def multer_disk_def Let_def split: option.splits)

section \<open>Price validation\<close>

lemma post_products_cloud_400:
  "(fst (post_products_cloud e req w) = Reply 400 (ErrorJson ''Price must be a valid number''))
     = isNaN (parseFloat (req_body req ''price''))"
  by (cases "isNaN (parseFloat (req_body req ''price''))")
     (simp_all add: post_products_cloud_def Let_def split: option.split prod.split)

lemma put_products_400:
  "(fst (put_products e req w) = Reply 400 (ErrorJson ''Price must be a valid number''))
     = isNaN (parseFloat (req_body req ''price''))"
  by (cases "isNaN (parseFloat (req_body req ''price''))")
     (simp_all add: put_products_def Let_def split: option.split prod.split)

lemma post_products_local_400:
  "(fst (post_products_local e req w) = Reply 400 (ErrorJson ''Price must be a valid number''))
     = (isNaN (parseFloat (req_body req ''price'')) \<and> (req_file req = None \<or> disk_ok e))"
  by (cases "isNaN (parseFloat (req_body req ''price''))")
     (auto simp: post_products_local_def multer_disk_def Let_def split: option.split prod.split)

text \<open>
  C1 (as amended). A create or update request is answered with 400, message
  ``Price must be a valid number'', exactly when \<open>parseFloat\<close> of its \<open>price\<close> part is
  \<open>NaN\<close>, that is, when the part (the text \<open>undefined\<close> if it is missing), after its
  leading white space and optional sign, begins neither with a digit, nor with a point
  and a digit, nor with \<open>Infinity\<close>. No other price is refused: the handlers test \<open>isNaN\<close>
  only. In the local-disk server the handler is reached only after the middleware has
  stored the file part, if there is one.
\<close>

theorem price_validation:
  "(fst (post_products_cloud e req w) = Reply 400 (ErrorJson ''Price must be a valid number''))
     = isNaN (parseFloat (req_body req ''price''))
   \<and> (fst (put_products e req w) = Reply 400 (ErrorJson ''Price must be a valid number''))
     = isNaN (parseFloat (req_body req ''price''))
   \<and> (fst (post_products_local e req w) = Reply 400 (ErrorJson ''Price must be a valid number''))
     = (isNaN (parseFloat (req_body req ''price'')) \<and> (req_file req = None \<or> disk_ok e))
   \<and> isNaN (parseFloat (req_body req ''price''))
     = (\<not> begins_decimal_literal
            (snd (split_sign (dropWhile is_white (ToString (req_body req ''price''))))))"
  by (simp only: post_products_cloud_400 put_products_400 post_products_local_400
        parseFloat_NaN_iff simp_thms)

text \<open>
  C1 as the specification states it fails: the price \<open>-5\<close> parses to a negative number and
  the price \<open>Infinity\<close> to an infinite one, and the product is created (201) or updated
  (200) with that price.
\<close>

theorem negative_and_infinite_price_accepted:
  "\<not> (isFinite (parseFloat (Some ''-5'')) \<and> ge_zero (parseFloat (Some ''-5'')))
   \<and> fst (post_products_cloud example_env (form [(''name'', ''Pen''), (''price'', ''-5'')] None [])
          example_world)
     = Reply 201 (ProductJson
         \<lparr>product_id = 8, name = Some ''Pen'', description = None, price = Finite True 5,
          category = None, image_ref = [], date = 1700000000123\<rparr>)
   \<and> fst (post_products_local example_env (form [(''name'', ''Pen''), (''price'', ''-5'')] None [])
          example_world)
     = Reply 201 (ProductJson
         \<lparr>product_id = 8, name = Some ''Pen'', description = None, price = Finite True 5,
          category = None, image_ref = [], date = 1700000000123\<rparr>)
   \<and> \<not> (isFinite (parseFloat (Some ''Infinity'')) \<and> ge_zero (parseFloat (Some ''Infinity'')))
   \<and> fst (put_products example_env (form [(''price'', ''Infinity'')] None id_of_pen) example_world)
     = Reply 200 (ProductJson (pen\<lparr>price := Infinity False\<rparr>))"
  by (simp add: post_products_cloud_def post_products_local_def put_products_def multer_disk_def
        findByIdAndUpdate_def apply_update_def set_path_def new_Product_def save_def
        form_def example_env_def example_world_def pen_def Let_def cast_id_of_pen
        parseFloat_minus_5 parseFloat_Infinity isNaN_def isFinite_def ge_zero_def)

section \<open>Validation failures and the stores\<close>

text \<open>
  C2, at the input where the local-disk server departs from it: a POST with the price
  \<open>abc\<close> and a file part. The request is refused with 400 and no document is inserted,
  but the file is in \<open>uploads/\<close>: the middleware wrote it before the handler looked at the
  price. (The cloud server writes nothing: lemma \<open>cloud_invalid_price_no_write\<close>.)
\<close>

theorem local_disk_stores_file_of_refused_request:
  "post_products_local example_env (form [(''name'', ''Pen''), (''price'', ''abc'')] (Some png) [])
      example_world
   = (Reply 400 (ErrorJson ''Price must be a valid number''),
      example_world\<lparr>blobs := [(''uploads/1700000000100.png'', ''0123456789'')]\<rparr>)"
  by (simp add: post_products_local_def multer_disk_def form_def example_env_def
        example_world_def png_def parseFloat_abc isNaN_def dec_string_upload_now Let_def)

section \<open>Upload failures\<close>

text \<open>
  C3. When a file is attached to a create request and the Blob Store fails, the request
  is answered with 500 and the stores are as before: no product is inserted. In the cloud
  server the upload is attempted once the price has passed validation, and a rejected
  upload goes to the handler's \<open>catch\<close>; in the local-disk server the failed write ends
  the request in the middleware.
\<close>

theorem upload_failure_aborts:
  assumes "req_file req = Some f"
  shows "(cloud_result e = None \<longrightarrow> snd (post_products_cloud e req w) = w)
       \<and> (cloud_result e = None \<and> \<not> isNaN (parseFloat (req_body req ''price'')) \<longrightarrow>
            post_products_cloud e req w = (Reply 500 (ErrorJson ''Internal server error''), w))
       \<and> (\<not> disk_ok e \<longrightarrow> post_products_local e req w = (Reply 500 ErrorPage, w))"
  using assms
  by (simp add: post_products_cloud_def post_products_local_def uploadToCloudinary_def
        multer_disk_def Let_def)

theorem upload_failure_aborts_witness:
  "req_file (form [(''name'', ''Pen''), (''price'', ''1.50'')] (Some png) []) = Some png
   \<and> cloud_result failing_store_env = None
   \<and> \<not> disk_ok failing_store_env
   \<and> \<not> isNaN (parseFloat (req_body (form [(''name'', ''Pen''), (''price'', ''1.50'')] (Some png) [])
          ''price''))
   \<and> post_products_cloud failing_store_env
        (form [(''name'', ''Pen''), (''price'', ''1.50'')] (Some png) []) example_world
     = (Reply 500 (ErrorJson ''Internal server error''), example_world)
   \<and> post_products_local failing_store_env
        (form [(''name'', ''Pen''), (''price'', ''1.50'')] (Some png) []) example_world
     = (Reply 500 ErrorPage, example_world)"
  using upload_failure_aborts
    [of "form [(''name'', ''Pen''), (''price'', ''1.50'')] (Some png) []" png
      failing_store_env example_world]
  by (simp add: form_def failing_store_env_def example_env_def parseFloat_1_50 isNaN_def)

section \<open>Updating a product\<close>

text \<open>
  C4. An update request without a file part leaves the \<open>image\<close> of every stored product
  as it was, whatever else happens to the request. When the price is valid, the query
  resolves and a product \<open>p\<close> has the id of the path, the answer is 200 with \<open>p\<close> in which
  \<open>name\<close>, \<open>description\<close>, \<open>price\<close> and \<open>category\<close> are set from the request and nothing
  else is changed (so the image, the id and the date are those of \<open>p\<close>), and that is the
  product now stored under the id.
\<close>

theorem put_without_file_keeps_image:
  assumes "req_file req = None"
  shows "map image_ref (products (snd (put_products e req w))) = map image_ref (products w)
       \<and> (db_ok e \<and> \<not> isNaN (parseFloat (req_body req ''price''))
            \<and> cast_id e (params_id req) = Some i
            \<and> find (\<lambda>q. product_id q = i) (products w) = Some p \<longrightarrow>
          (let p' = p\<lparr>name := set_path (omit_undefined e) (req_body req ''name'') (name p),
                      description :=
                        set_path (omit_undefined e) (req_body req ''description'') (description p),
                      price := parseFloat (req_body req ''price''),
                      category :=
                        set_path (omit_undefined e) (req_body req ''category'') (category p)\<rparr>
           in fst (put_products e req w) = Reply 200 (ProductJson p')
            \<and> find (\<lambda>q. product_id q = i) (products (snd (put_products e req w))) = Some p'))"
proof -
  let ?u = "\<lparr>upd_name = req_body req ''name'',
             upd_description = req_body req ''description'',
             upd_price = parseFloat (req_body req ''price''),
             upd_category = req_body req ''category'',
             upd_image = None\<rparr>"
  let ?f = "apply_update (omit_undefined e) ?u"
  have frame: "map image_ref (snd (update_first k ?f (products w))) = map image_ref (products w)"
    for k
    by (rule update_first_map) (simp add: apply_update_no_image)
  have run: "put_products e req w =
      (if isNaN (parseFloat (req_body req ''price''))
       then (Reply 400 (ErrorJson ''Price must be a valid number''), w)
       else (case cast_id e (params_id req) of
               None \<Rightarrow> (Reply 500 (ErrorJson ''Internal server error''), w)
             | Some k \<Rightarrow>
                 if \<not> db_ok e then (Reply 500 (ErrorJson ''Internal server error''), w)
                 else (case fst (update_first k ?f (products w)) of
                         None \<Rightarrow>
                           (Reply 404 (ErrorJson ''Product not found''),
                            w\<lparr>products := snd (update_first k ?f (products w))\<rparr>)
                       | Some updated \<Rightarrow>
                           (Reply 200 (ProductJson updated),
                            w\<lparr>products := snd (update_first k ?f (products w))\<rparr>))))"
    using assms
    by (simp add: put_products_def findByIdAndUpdate_def Let_def split: prod.splits option.splits)
  have first: "map image_ref (products (snd (put_products e req w))) = map image_ref (products w)"
    using frame by (simp add: run split: option.splits)
  have second: "fst (put_products e req w) = Reply 200 (ProductJson (?f p))
      \<and> find (\<lambda>q. product_id q = i) (products (snd (put_products e req w))) = Some (?f p)"
    if ok: "db_ok e" "\<not> isNaN (parseFloat (req_body req ''price''))"
      and cast: "cast_id e (params_id req) = Some i"
      and found: "find (\<lambda>q. product_id q = i) (products w) = Some p"
  proof -
    have id: "product_id (?f p) = i"
      using find_id [OF found] by (simp add: apply_update_id)
    have "fst (update_first i ?f (products w)) = Some (?f p)"
      by (rule update_first_some [OF found])
    moreover have "find (\<lambda>q. product_id q = i) (snd (update_first i ?f (products w))) = Some (?f p)"
      using found id by (rule update_first_find [where f = "?f"])
    ultimately show ?thesis using ok cast by (simp add: run)
  qed
  have shape: "?f p =
      p\<lparr>name := set_path (omit_undefined e) (req_body req ''name'') (name p),
        description := set_path (omit_undefined e) (req_body req ''description'') (description p),
        price := parseFloat (req_body req ''price''),
        category := set_path (omit_undefined e) (req_body req ''category'') (category p)\<rparr>"
    by (simp add: apply_update_def)
  show ?thesis
    using first second by (simp add: shape Let_def)
qed

theorem put_without_file_keeps_image_witness:
  "req_file (form [(''name'', ''Pencil''), (''price'', ''2'')] None id_of_pen) = None
   \<and> db_ok example_env
   \<and> \<not> isNaN (parseFloat (req_body (form [(''name'', ''Pencil''), (''price'', ''2'')] None id_of_pen)
          ''price''))
   \<and> cast_id example_env
        (params_id (form [(''name'', ''Pencil''), (''price'', ''2'')] None id_of_pen)) = Some 7
   \<and> find (\<lambda>q. product_id q = 7) (products example_world) = Some pen
   \<and> map image_ref (products (snd (put_products example_env
          (form [(''name'', ''Pencil''), (''price'', ''2'')] None id_of_pen) example_world)))
     = [''https://res.example/products/pen.png'']
   \<and> fst (put_products example_env (form [(''name'', ''Pencil''), (''price'', ''2'')] None id_of_pen)
          example_world)
     = Reply 200 (ProductJson (pen\<lparr>name := Some ''Pencil'', price := Finite False 2\<rparr>))"
  using put_without_file_keeps_image
    [of "form [(''name'', ''Pencil''), (''price'', ''2'')] None id_of_pen" example_env
      example_world 7 pen]
  by (simp add: form_def example_env_def example_world_def pen_def parseFloat_2 isNaN_def
        set_path_def Let_def cast_id_of_pen)

text \<open>
  C6 (as amended). An update request with a valid price whose path parameter is a
  well-formed identifier (it casts to an \<open>ObjectId\<close>) that no product has is answered with
  404, message ``Product not found'', and the products are as before. This is the answer
  when the handler gets as far as the query and the database answers it: an attached file
  has been uploaded.
\<close>

theorem put_unknown_id:
  assumes "\<not> isNaN (parseFloat (req_body req ''price''))"
    and "db_ok e"
    and "req_file req = None \<or> cloud_result e \<noteq> None"
    and "cast_id e (params_id req) = Some i"
    and "i \<notin> product_id ` set (products w)"
  shows "fst (put_products e req w) = Reply 404 (ErrorJson ''Product not found'')
       \<and> products (snd (put_products e req w)) = products w"
  using assms
  by (auto simp: put_products_def findByIdAndUpdate_def uploadToCloudinary_def
        update_first_none Let_def
      split: option.splits prod.splits)

theorem put_unknown_id_witness:
  "\<not> isNaN (parseFloat (req_body (form [(''price'', ''2'')] None id_of_none) ''price''))
   \<and> db_ok example_env
   \<and> req_file (form [(''price'', ''2'')] None id_of_none) = None
   \<and> cast_id example_env (params_id (form [(''price'', ''2'')] None id_of_none)) = Some 99
   \<and> 99 \<notin> product_id ` set (products example_world)
   \<and> fst (put_products example_env (form [(''price'', ''2'')] None id_of_none) example_world)
     = Reply 404 (ErrorJson ''Product not found'')
   \<and> products (snd (put_products example_env (form [(''price'', ''2'')] None id_of_none)
        example_world))
     = [pen]"
  using put_unknown_id [of "form [(''price'', ''2'')] None id_of_none" example_env 99 example_world]
  by (simp add: form_def example_env_def example_world_def pen_def parseFloat_2 isNaN_def
        cast_id_of_none)

text \<open>
  C6 as the specification states it fails: the path parameter \<open>zzz\<close> is the id of no
  product and the price is valid, and the request is answered with 500, not 404. The
  string does not cast to an \<open>ObjectId\<close>, \<open>findByIdAndUpdate\<close> rejects, and the handler's
  \<open>catch\<close> answers.
\<close>

theorem put_malformed_id_is_500:
  "\<not> isNaN (parseFloat (req_body (form [(''price'', ''2'')] None id_malformed) ''price''))
   \<and> db_ok example_env
   \<and> req_file (form [(''price'', ''2'')] None id_malformed) = None
   \<and> cast_id example_env (params_id (form [(''price'', ''2'')] None id_malformed))
        \<notin> Some ` product_id ` set (products example_world)
   \<and> put_products example_env (form [(''price'', ''2'')] None id_malformed) example_world
     = (Reply 500 (ErrorJson ''Internal server error''), example_world)"
  by (simp add: put_products_def findByIdAndUpdate_def form_def example_env_def
        example_world_def pen_def parseFloat_2 isNaN_def cast_id_malformed Let_def)

text \<open>
  C10. An update request without a \<open>price\<close> part is answered with 400, message
  ``Price must be a valid number'', whatever its other parts are, and nothing is stored or
  changed: \<open>parseFloat(undefined)\<close> is \<open>NaN\<close>.
\<close>

theorem put_without_price:
  assumes "req_body req ''price'' = None"
  shows "put_products e req w = (Reply 400 (ErrorJson ''Price must be a valid number''), w)"
  using assms by (simp add: put_products_def isNaN_def parseFloat_undefined)

theorem put_without_price_witness:
  "req_body (form [(''name'', ''Pencil''), (''category'', ''office'')] (Some png) id_of_pen) ''price'' = None
   \<and> put_products example_env
        (form [(''name'', ''Pencil''), (''category'', ''office'')] (Some png) id_of_pen) example_world
     = (Reply 400 (ErrorJson ''Price must be a valid number''), example_world)"
  using put_without_price
    [of "form [(''name'', ''Pencil''), (''category'', ''office'')] (Some png) id_of_pen"
      example_env example_world]
  by (simp add: form_def)

section \<open>Creating a product\<close>

text \<open>
  C5. A create request whose price parses as a non-negative number is answered with 201
  and the new product: its price is the parsed number, its identifier is the fresh one,
  and it is the product appended to the collection. This holds in both servers when their
  collaborators work: an attached file is stored and the save resolves.
\<close>

theorem create_valid_price:
  assumes "ge_zero (parseFloat (req_body req ''price''))"
    and "db_ok e"
  shows "(req_file req = None \<or> cloud_result e \<noteq> None \<longrightarrow>
           (\<exists>p. fst (post_products_cloud e req w) = Reply 201 (ProductJson p)
               \<and> price p = parseFloat (req_body req ''price'')
               \<and> product_id p = next_id w
               \<and> products (snd (post_products_cloud e req w)) = products w @ [p]))
       \<and> (req_file req = None \<or> disk_ok e \<longrightarrow>
           (\<exists>p. fst (post_products_local e req w) = Reply 201 (ProductJson p)
               \<and> price p = parseFloat (req_body req ''price'')
               \<and> product_id p = next_id w
               \<and> products (snd (post_products_local e req w)) = products w @ [p]))"
  using assms(2) ge_zero_not_NaN [OF assms(1)]
  by (auto simp: post_products_cloud_def post_products_local_def new_Product_def save_def
        uploadToCloudinary_def multer_disk_def Let_def
      split: option.splits)

theorem create_valid_price_witness:
  "ge_zero (parseFloat (req_body
      (form [(''name'', ''Pen''), (''description'', ''Blue ink''), (''price'', ''1.50''),
             (''category'', ''stationery'')] (Some png) []) ''price''))
   \<and> db_ok example_env
   \<and> cloud_result example_env = Some ''https://res.example/products/a1.png''
   \<and> disk_ok example_env
   \<and> (\<exists>p. fst (post_products_cloud example_env
              (form [(''name'', ''Pen''), (''description'', ''Blue ink''), (''price'', ''1.50''),
                     (''category'', ''stationery'')] (Some png) []) example_world)
            = Reply 201 (ProductJson p)
          \<and> price p = Finite False (3 / 2)
          \<and> product_id p = 8
          \<and> products (snd (post_products_cloud example_env
              (form [(''name'', ''Pen''), (''description'', ''Blue ink''), (''price'', ''1.50''),
                     (''category'', ''stationery'')] (Some png) []) example_world))
            = [pen, p])
   \<and> (\<exists>p. fst (post_products_local example_env
              (form [(''name'', ''Pen''), (''description'', ''Blue ink''), (''price'', ''1.50''),
                     (''category'', ''stationery'')] (Some png) []) example_world)
            = Reply 201 (ProductJson p)
          \<and> price p = Finite False (3 / 2)
          \<and> product_id p = 8
          \<and> products (snd (post_products_local example_env
              (form [(''name'', ''Pen''), (''description'', ''Blue ink''), (''price'', ''1.50''),
                     (''category'', ''stationery'')] (Some png) []) example_world))
            = [pen, p])"
  using create_valid_price
    [of "form [(''name'', ''Pen''), (''description'', ''Blue ink''), (''price'', ''1.50''),
               (''category'', ''stationery'')] (Some png) []" example_env example_world]
  by (simp add: form_def example_env_def example_world_def parseFloat_1_50 ge_zero_def)

section \<open>Deleting and listing products\<close>

text \<open>
  C7 (as amended). When the database answers the query, a delete request for the id of a
  stored product \<open>p\<close> is answered with 200 and \<open>p\<close> is removed from the collection (no
  product has the id afterwards, identifiers being unique); for a well-formed identifier
  (the path parameter casts to an \<open>ObjectId\<close>) that no product has it is answered with
  404, message ``Product not found'', the state is as before, and so is the answer to a
  listing.
\<close>

theorem delete_by_id:
  assumes "db_ok e"
    and "cast_id e (params_id req) = Some i"
  shows "(\<forall>p. find (\<lambda>q. product_id q = i) (products w) = Some p \<longrightarrow>
            delete_products v e req w =
              (Reply 200 (MessageJson ''Product deleted''), w\<lparr>products := remove1 p (products w)\<rparr>)
          \<and> (distinct (map product_id (products w)) \<longrightarrow>
                i \<notin> product_id ` set (products (snd (delete_products v e req w)))))
       \<and> (i \<notin> product_id ` set (products w) \<longrightarrow>
            delete_products v e req w = (Reply 404 (ErrorJson ''Product not found''), w)
          \<and> get_products v e (snd (delete_products v e req w)) = get_products v e w)"
proof -
  have gone: "i \<notin> product_id ` set (remove1 p (products w))"
    if "find (\<lambda>q. product_id q = i) (products w) = Some p"
      and "distinct (map product_id (products w))" for p
    using remove1_distinct_id [of "products w" p] find_id [OF that(1)] that(2) by simp
  show ?thesis
    using assms gone
    by (simp add: delete_products_def findByIdAndDelete_def delete_first_none delete_first_some)
qed

theorem delete_by_id_witness:
  "db_ok example_env
   \<and> cast_id example_env (params_id (form [] None id_of_pen)) = Some 7
   \<and> find (\<lambda>q. product_id q = 7) (products two_products_world) = Some pen
   \<and> distinct (map product_id (products two_products_world))
   \<and> delete_products Cloud example_env (form [] None id_of_pen) two_products_world
     = (Reply 200 (MessageJson ''Product deleted''), two_products_world\<lparr>products := [ink]\<rparr>)
   \<and> cast_id example_env (params_id (form [] None id_of_none)) = Some 99
   \<and> 99 \<notin> product_id ` set (products two_products_world)
   \<and> delete_products LocalDisk example_env (form [] None id_of_none) two_products_world
     = (Reply 404 (ErrorJson ''Product not found''), two_products_world)
   \<and> get_products LocalDisk example_env
        (snd (delete_products LocalDisk example_env (form [] None id_of_none) two_products_world))
     = get_products LocalDisk example_env two_products_world"
  using delete_by_id [of example_env "form [] None id_of_pen" 7 two_products_world Cloud]
    delete_by_id [of example_env "form [] None id_of_none" 99 two_products_world LocalDisk]
  by (simp add: form_def example_env_def two_products_world_def pen_def ink_def
        cast_id_of_pen cast_id_of_none)

text \<open>
  C7 as the specification states it fails: the path parameter \<open>zzz\<close> is the id of no
  product, and the delete request is answered with 500 in both servers, not 404. The
  string does not cast to an \<open>ObjectId\<close>, \<open>findByIdAndDelete\<close> rejects, and the handler's
  \<open>catch\<close> answers. The collection is as before.
\<close>

theorem delete_malformed_id_is_500:
  "db_ok example_env
   \<and> cast_id example_env (params_id (form [] None id_malformed))
        \<notin> Some ` product_id ` set (products two_products_world)
   \<and> delete_products LocalDisk example_env (form [] None id_malformed) two_products_world
     = (Reply 500 (ErrorJson ''Server error''), two_products_world)
   \<and> delete_products Cloud example_env (form [] None id_malformed) two_products_world
     = (Reply 500 (ErrorJson ''Internal server error''), two_products_world)"
  by (simp add: delete_products_def findByIdAndDelete_def form_def example_env_def
        two_products_world_def pen_def ink_def cast_id_malformed)

text \<open>
  C8. When the query resolves, a listing is answered with 200 and a list that holds
  exactly the stored products, each as often as it is stored (so none is left out and the
  length is that of the collection), in descending order of \<open>date\<close>.
\<close>

theorem list_newest_first:
  assumes "db_ok e"
  shows "\<exists>ps. get_products v e w = Reply 200 (ProductsJson ps)
            \<and> mset ps = mset (products w)
            \<and> length ps = length (products w)
            \<and> sorted_wrt (\<lambda>a b. date b \<le> date a) ps"
proof -
  let ?ps = "sort_key (\<lambda>p. - int (date p)) (products w)"
  have "sorted (map (\<lambda>p. - int (date p)) ?ps)"
    by (rule sorted_sort_key)
  then have "sorted_wrt (\<lambda>a b. date b \<le> date a) ?ps"
    by (simp add: sorted_wrt_map)
  moreover have "get_products v e w = Reply 200 (ProductsJson ?ps)"
    using assms by (simp add: get_products_def find_sorted_def)
  ultimately show ?thesis by auto
qed

theorem list_newest_first_witness:
  "db_ok example_env
   \<and> get_products Cloud example_env two_products_world = Reply 200 (ProductsJson [ink, pen])
   \<and> (\<exists>ps. get_products Cloud example_env two_products_world = Reply 200 (ProductsJson ps)
          \<and> mset ps = mset (products two_products_world)
          \<and> length ps = length (products two_products_world)
          \<and> sorted_wrt (\<lambda>a b. date b \<le> date a) ps)"
proof -
  have ok: "db_ok example_env"
    by (simp add: example_env_def)
  have "get_products Cloud example_env two_products_world = Reply 200 (ProductsJson [ink, pen])"
    by (simp add: get_products_def find_sorted_def example_env_def two_products_world_def
          pen_def ink_def)
  with ok list_newest_first [OF ok, of Cloud two_products_world] show ?thesis
    by simp
qed

section \<open>Login\<close>

text \<open>
  C9. For a registered email, when the query resolves: a password that \<open>bcrypt.compare\<close>
  rejects against the stored hash is answered with 400, message ``Wrong password''; a
  password that it accepts is answered with 200 and a token whose payload holds the
  user's identifier, the time of issue in seconds, and an expiry 7200 seconds (two hours)
  after it. The token is issued when there is a signing key, which the local-disk server
  always has and the cloud server has when \<open>JWT_SECRET\<close> is set.
\<close>

theorem login_password_check:
  assumes "db_ok e"
    and "find (\<lambda>x. email x = em) (users w) = Some u"
  shows "(\<not> bcrypt_compare e pw (password u) \<longrightarrow>
            post_login v e em pw w = Reply 400 (ErrorJson ''Wrong password''))
       \<and> (bcrypt_compare e pw (password u) \<and> signing_secret v e = Some k \<and> k \<noteq> [] \<longrightarrow>
            (\<exists>tok. post_login v e em pw w = Reply 200 (LoginJson tok (user_id u) (username u))
                 \<and> userId (jwt_decode tok) = user_id u
                 \<and> iat (jwt_decode tok) = now e div 1000
                 \<and> exp (jwt_decode tok) = iat (jwt_decode tok) + 7200))"
  using assms
  by (auto simp: post_login_def findOne_def jwt_sign_def Let_def)

theorem login_password_check_witness:
  "db_ok example_env
   \<and> find (\<lambda>x. email x = ''admin@gmail.com'') (users example_world) = Some admin
   \<and> \<not> bcrypt_compare example_env ''admin124'' (password admin)
   \<and> post_login Cloud example_env ''admin@gmail.com'' ''admin124'' example_world
     = Reply 400 (ErrorJson ''Wrong password'')
   \<and> bcrypt_compare example_env ''admin123'' (password admin)
   \<and> signing_secret Cloud example_env = Some ''k''
   \<and> (\<exists>tok. post_login Cloud example_env ''admin@gmail.com'' ''admin123'' example_world
             = Reply 200 (LoginJson tok 1 (Some ''Admin''))
          \<and> userId (jwt_decode tok) = 1
          \<and> iat (jwt_decode tok) = 1700000000
          \<and> exp (jwt_decode tok) = 1700007200)"
  using login_password_check
      [of example_env "''admin@gmail.com''" example_world admin "''admin124''" Cloud "''k''"]
    login_password_check
      [of example_env "''admin@gmail.com''" example_world admin "''admin123''" Cloud "''k''"]
  by (auto simp: example_env_def example_world_def admin_def signing_secret_def)

end
